theory Spec2Isabelle
  imports Complex_Main
begin

section \<open>The life simulator: models, funds and the weekly driver\<close>

text \<open>
  A shallow embedding of \<^verbatim>\<open>simulate.cc\<close>. The C++ type \<^verbatim>\<open>double\<close> is read as
  \<^typ>\<open>real\<close>: arithmetic is exact, and the one infinite value the program uses, the
  default of \<^verbatim>\<open>duration_\<close>, is written \<open>None\<close> in a \<^typ>\<open>real option\<close>. Rounding,
  NaN and a division by zero (which HOL defines as 0 and C++ as an infinity) are outside
  the model; a theorem that depends on a divisor names the condition that keeps it
  non-zero. A \<^verbatim>\<open>size_t\<close> is a \<^typ>\<open>nat\<close>; the conversion of a negative
  \<^verbatim>\<open>double\<close> to \<^verbatim>\<open>size_t\<close> is undefined in C++, so theorems about such a
  conversion assume the converted value is not negative. Every mutating member function
  takes the object and returns the returned value paired with the updated object.
  Printing and the \<^verbatim>\<open>market_contributed\<close> bookkeeping of the verbose mode are not
  modelled.
\<close>

subsection \<open>Errors\<close>

datatype error = runtime_error string

subsection \<open>ModelBase\<close>

record ModelBase =
  name :: string
  start :: real
  duration :: "real option"
  year :: real

text \<open>\<^verbatim>\<open>end()\<close> is \<^verbatim>\<open>start() + duration_\<close>; \<open>None\<close> is \<open>+\<infinity>\<close>.\<close>

definition end_year :: "'a ModelBase_scheme \<Rightarrow> real option" where
  "end_year m = (case duration m of None \<Rightarrow> None | Some d \<Rightarrow> Some (start m + d))"

text \<open>\<^verbatim>\<open>year >= end()\<close> and \<^verbatim>\<open>year > end()\<close> against a possibly infinite end.\<close>

definition ge_end :: "real \<Rightarrow> real option \<Rightarrow> bool" where
  "ge_end y e = (case e of None \<Rightarrow> False | Some e' \<Rightarrow> e' \<le> y)"

definition gt_end :: "real \<Rightarrow> real option \<Rightarrow> bool" where
  "gt_end y e = (case e of None \<Rightarrow> False | Some e' \<Rightarrow> e' < y)"

text \<open>\<^verbatim>\<open>set_year\<close> stores the new cursor and returns the previous one.\<close>

definition set_year :: "'a ModelBase_scheme \<Rightarrow> real \<Rightarrow> real \<times> 'a ModelBase_scheme" where
  "set_year m y = (year m, m\<lparr>year := y\<rparr>)"

subsection \<open>Income and expense models\<close>

text \<open>
  The dynamic type of a non-fund model with its private fields, in declaration order:
  \<open>Job salary_ rate_\<close>, \<open>Spending annual_ rate_ linear_\<close> and
  \<open>Cost total_ remaining_ down_ close_\<close>. Below, the variables \<open>total'\<close> and
  \<open>linear'\<close> stand for \<^verbatim>\<open>total_\<close> and \<^verbatim>\<open>linear_\<close>.
\<close>

datatype model_kind =
    Job real real
  | Spending real real bool
  | Cost real real real real

record Model = ModelBase +
  kind :: model_kind

text \<open>
  The virtual \<^verbatim>\<open>update(dt)\<close>; the second argument is \<^verbatim>\<open>year()\<close>, which
  \<^verbatim>\<open>Job::update\<close> reads. \<^verbatim>\<open>Cost\<close> does not override it and inherits the base
  body, which returns 0.
\<close>

fun update :: "model_kind \<Rightarrow> real \<Rightarrow> real \<Rightarrow> real \<times> model_kind" where
  "update (Job salary rate) yr dt =
     (let previous = yr - dt;
          salary' = (if \<lfloor>previous\<rfloor> \<noteq> \<lfloor>yr\<rfloor> then salary * exp rate else salary)
      in (dt * salary', Job salary' rate))"
| "update (Spending annual rate linear') yr dt =
     (let annual' = (if linear' then annual + dt * rate else annual * exp (rate * dt))
      in (dt * annual', Spending annual' rate linear'))"
| "update (Cost total' remaining down close) yr dt =
     (0, Cost total' remaining down close)"

text \<open>\<^verbatim>\<open>ModelBase::update_to\<close>, the gate that \<^verbatim>\<open>Job\<close> and \<^verbatim>\<open>Spending\<close> inherit.\<close>

definition ModelBase_update_to :: "Model \<Rightarrow> real \<Rightarrow> real \<times> Model" where
  "ModelBase_update_to m yr =
     (let (prev, m1) = set_year m yr;
          dt = yr - prev
      in if yr < start m1 then (0, m1)
         else if ge_end yr (end_year m1) then (0, m1)
         else if dt \<le> 0 then (0, m1)
         else (let (v, k) = update (kind m1) (year m1) dt in (v, m1\<lparr>kind := k\<rparr>)))"

text \<open>
  \<^verbatim>\<open>Cost::update_to\<close>, on the four private fields of the object. With an infinite
  end the quotient \<^verbatim>\<open>dt * total_ / (end() - start())\<close> is 0.
\<close>

definition Cost_update_to ::
  "Model \<Rightarrow> real \<Rightarrow> real \<Rightarrow> real \<Rightarrow> real \<Rightarrow> real \<Rightarrow> real \<times> Model" where
  "Cost_update_to m total' remaining down close yr =
     (let (prev, m1) = set_year m yr;
          dt = yr - prev
      in if yr < start m1 then (0, m1)
         else if gt_end yr (end_year m1)
           then (remaining + close, m1\<lparr>kind := Cost total' 0 down 0\<rparr>)
         else if 0 < down
           then (down, m1\<lparr>kind := Cost (total' - down) (remaining - down) 0 close\<rparr>)
         else (let amt = (case end_year m1 of
                               None \<Rightarrow> 0
                             | Some e \<Rightarrow> dt * total' / (e - start m1));
                   amt' = min remaining amt
               in (amt', m1\<lparr>kind := Cost total' (remaining - amt') down close\<rparr>)))"

text \<open>The virtual call \<^verbatim>\<open>model->update_to(year)\<close>.\<close>

definition update_to :: "Model \<Rightarrow> real \<Rightarrow> real \<times> Model" where
  "update_to m yr =
     (case kind m of
        Cost total' remaining down close \<Rightarrow> Cost_update_to m total' remaining down close yr
      | _ \<Rightarrow> ModelBase_update_to m yr)"

subsection \<open>Funds\<close>

text \<open>
  The dynamic type of a fund with its private fields: \<open>FixedRateFund rate_\<close> and
  \<open>MarketFund wrap_around_multiplier_ day_offset_\<close>.
\<close>

datatype fund_kind =
    FixedRateFund real
  | MarketFund real real

record FundBase = ModelBase +
  contributed :: "nat \<rightharpoonup> real"
  contribution_limit :: real
  amount :: real
  growth :: fund_kind

text \<open>
  What \<^verbatim>\<open>contributed_[k]\<close> reads: \<^verbatim>\<open>operator[]\<close> of \<^verbatim>\<open>std::map\<close> creates a
  missing entry with value 0 and yields a reference to it.
\<close>

definition entry :: "(nat \<rightharpoonup> real) \<Rightarrow> nat \<Rightarrow> real" where
  "entry m k = (case m k of None \<Rightarrow> 0 | Some v \<Rightarrow> v)"

text \<open>\<^verbatim>\<open>FundBase::buy\<close>; the key is \<^verbatim>\<open>std::floor(year())\<close> as a \<^verbatim>\<open>size_t\<close>.\<close>

definition buy :: "FundBase \<Rightarrow> real \<Rightarrow> real \<times> FundBase" where
  "buy f amt =
     (if amt < 0 then (0, f)
      else if 0 < contribution_limit f then
        (let k = nat \<lfloor>year f\<rfloor>;
             c = entry (contributed f) k;
             remaining = contribution_limit f - c;
             amt' = min amt remaining
         in (amt', f\<lparr>contributed := (contributed f)(k \<mapsto> c + amt'),
                         amount := amount f + amt'\<rparr>))
      else (amt, f\<lparr>amount := amount f + amt\<rparr>))"

text \<open>\<^verbatim>\<open>FundBase::sell\<close>.\<close>

definition sell :: "FundBase \<Rightarrow> real \<Rightarrow> real \<times> FundBase" where
  "sell f amt =
     (if year f < start f then (0, f)
      else if amt < 0 then (0, f)
      else if amt \<le> amount f then (amt, f\<lparr>amount := amount f - amt\<rparr>)
      else (amount f, f\<lparr>amount := 0\<rparr>))"

text \<open>
  The market data file, \<^verbatim>\<open>file_->data\<close> with \<^verbatim>\<open>file_->data_size\<close> samples, is a list.
  The constructor of \<^verbatim>\<open>MarketFund\<close> computes the multiplier from it.
\<close>

definition wrap_around_multiplier :: "real list \<Rightarrow> real" where
  "wrap_around_multiplier data = data ! (length data - 1) / data ! 0"

text \<open>\<^verbatim>\<open>MarketFund::lookup\<close>, on the fields \<^verbatim>\<open>wrap_around_multiplier_\<close> and \<^verbatim>\<open>day_offset_\<close>.\<close>

definition lookup :: "real list \<Rightarrow> real \<Rightarrow> real \<Rightarrow> real \<Rightarrow> error + real" where
  "lookup data wrap day_offset yr =
     (let day = yr * 365.25 + day_offset;
          before = nat \<lfloor>day\<rfloor>
      in if before < length data then Inr (data ! before)
         else if 2 * length data \<le> before then Inl (runtime_error ''Invalid after index.'')
         else Inr (wrap * data ! (before mod length data)))"

text \<open>
  The virtual \<^verbatim>\<open>update_amount(amount, dt)\<close>; the third argument is \<^verbatim>\<open>year()\<close>, which
  \<^verbatim>\<open>MarketFund::update_amount\<close> reads.
\<close>

fun update_amount :: "real list \<Rightarrow> fund_kind \<Rightarrow> real \<Rightarrow> real \<Rightarrow> real \<Rightarrow> error + real" where
  "update_amount data (FixedRateFund rate) yr amt dt = Inr (amt * exp (rate * dt))"
| "update_amount data (MarketFund wrap day_offset) yr amt dt =
     (case lookup data wrap day_offset (yr + dt) of
        Inl e \<Rightarrow> Inl e
      | Inr after \<Rightarrow>
          (case lookup data wrap day_offset yr of
             Inl e \<Rightarrow> Inl e
           | Inr now \<Rightarrow> Inr (after * amt / now)))"

text \<open>\<^verbatim>\<open>FundBase::update_to\<close>: no activation gate, the growth rule is always applied.\<close>

definition Fund_update_to :: "real list \<Rightarrow> FundBase \<Rightarrow> real \<Rightarrow> error + real \<times> FundBase" where
  "Fund_update_to data f yr =
     (let (prev, f1) = set_year f yr;
          dt = yr - prev
      in case update_amount data (growth f1) (year f1) (amount f1) dt of
           Inl e \<Rightarrow> Inl e
         | Inr a \<Rightarrow> Inr (a, f1\<lparr>amount := a\<rparr>))"

text \<open>\<^verbatim>\<open>set_offset_percent\<close>: a no-op in \<^verbatim>\<open>FundBase\<close>, overridden by \<^verbatim>\<open>MarketFund\<close>.\<close>

definition set_offset_percent :: "real list \<Rightarrow> FundBase \<Rightarrow> real \<Rightarrow> FundBase" where
  "set_offset_percent data f percent =
     (case growth f of
        MarketFund wrap day_offset \<Rightarrow>
          f\<lparr>growth := MarketFund wrap (percent * real (length data))\<rparr>
      | FixedRateFund rate \<Rightarrow> f)"

subsection \<open>The driver: one simulation run of \<^verbatim>\<open>main\<close>\<close>

text \<open>
  The state of one run: the cloned models (a \<^verbatim>\<open>std::set\<close> is iterated in some fixed
  order, here a list; the funds are a \<^verbatim>\<open>std::vector\<close>) and the two locals
  \<^verbatim>\<open>bankrupt\<close> and \<^verbatim>\<open>retirement_value\<close>.
\<close>

record Run =
  income_models :: "Model list"
  expense_models :: "Model list"
  market_models :: "FundBase list"
  bankrupt :: bool
  retirement_value :: "real option"

definition PERIOD :: real where
  "PERIOD = 1 / 52"

text \<open>
  The start of a run: \<^verbatim>\<open>clone_set\<close> and \<^verbatim>\<open>clone_vector\<close> copy the base models in
  order, every fund gets the run's offset, and the two locals are initialised.
\<close>

definition new_run :: "real list \<Rightarrow> Model list \<Rightarrow> Model list \<Rightarrow> FundBase list \<Rightarrow> real \<Rightarrow> Run" where
  "new_run data base_income_models base_expense_models base_market_models percent =
     \<lparr>income_models = base_income_models,
      expense_models = base_expense_models,
      market_models = map (\<lambda>market. set_offset_percent data market percent) base_market_models,
      bankrupt = False,
      retirement_value = None\<rparr>"

text \<open>The two loops that call \<^verbatim>\<open>update_to(year)\<close> on every model and add up the results.\<close>

fun update_models :: "Model list \<Rightarrow> real \<Rightarrow> real \<Rightarrow> real \<times> Model list" where
  "update_models [] yr acc = (acc, [])"
| "update_models (m # ms) yr acc =
     (let (this, m') = update_to m yr;
          (acc', ms') = update_models ms yr (acc + this)
      in (acc', m' # ms'))"

text \<open>
  The loop that captures the retirement value:
  \<^verbatim>\<open>retirement_value = retirement_value.value_or(0.0) + market->amount()\<close> for every fund.
\<close>

definition capture_retirement :: "FundBase list \<Rightarrow> real option \<Rightarrow> real option" where
  "capture_retirement markets rv =
     foldl (\<lambda>v market. Some ((case v of None \<Rightarrow> 0 | Some x \<Rightarrow> x) + amount market)) rv markets"

text \<open>
  The first loop over the funds, lines 522 to 529: for \<open>i\<close> from 0, the fund at
  \<^verbatim>\<open>reverse_i = size - 1 - i\<close> is advanced and offered \<^verbatim>\<open>to_invest\<close>. A throwing
  \<^verbatim>\<open>update_to\<close> ends the run.
\<close>

function buy_loop ::
  "real list \<Rightarrow> real \<Rightarrow> nat \<Rightarrow> FundBase list \<Rightarrow> real \<Rightarrow> error + FundBase list \<times> real" where
  "buy_loop data yr i markets to_invest =
     (if i < length markets then
        (let reverse_i = length markets - 1 - i in
         case Fund_update_to data (markets ! reverse_i) yr of
           Inl e \<Rightarrow> Inl e
         | Inr (grown, f1) \<Rightarrow>
             (let (contributed', f2) = buy f1 to_invest
              in buy_loop data yr (i + 1) (markets[reverse_i := f2]) (to_invest - contributed')))
      else Inr (markets, to_invest))"
  by pat_completeness auto
termination
  by (relation "measure (\<lambda>(data, yr, i, markets, to_invest). length markets - i)") auto

declare buy_loop.simps [simp del]

text \<open>
  The second loop over the funds, lines 530 to 537: for \<open>i\<close> from 0, the fund at
  index \<open>i\<close> is asked for \<^verbatim>\<open>to_spend\<close>.
\<close>

function sell_loop :: "nat \<Rightarrow> FundBase list \<Rightarrow> real \<Rightarrow> FundBase list \<times> real" where
  "sell_loop i markets to_spend =
     (if i < length markets then
        (let (spend, f') = sell (markets ! i) to_spend
         in sell_loop (i + 1) (markets[i := f']) (to_spend - spend))
      else (markets, to_spend))"
  by pat_completeness auto
termination
  by (relation "measure (\<lambda>(i, markets, to_spend). length markets - i)") auto

declare sell_loop.simps [simp del]

text \<open>
  The body of the weekly loop up to the bankruptcy test: the updated run and the
  \<^verbatim>\<open>to_spend\<close> that is left after the second loop.
\<close>

definition cash_flow :: "real list \<Rightarrow> real \<Rightarrow> Run \<Rightarrow> error + Run \<times> real" where
  "cash_flow data yr r =
     (let (total_income, incomes) = update_models (income_models r) yr 0;
          rv = (if total_income = 0 \<and> retirement_value r = None
                then capture_retirement (market_models r) (retirement_value r)
                else retirement_value r);
          (total_expenses, expenses) = update_models (expense_models r) yr 0;
          to_invest = max (total_income - total_expenses) 0;
          to_spend = max (total_expenses - total_income) 0
      in case buy_loop data yr 0 (market_models r) to_invest of
           Inl e \<Rightarrow> Inl e
         | Inr (markets1, to_invest') \<Rightarrow>
             (let (markets2, to_spend') = sell_loop 0 markets1 to_spend
              in Inr (r\<lparr>income_models := incomes, expense_models := expenses,
                        market_models := markets2, retirement_value := rv\<rparr>, to_spend')))"

text \<open>One weekly step: the body above, then \<^verbatim>\<open>if (to_spend > 0.0) bankrupt = true\<close>.\<close>

definition step :: "real list \<Rightarrow> real \<Rightarrow> Run \<Rightarrow> error + Run" where
  "step data yr r =
     (case cash_flow data yr r of
        Inl e \<Rightarrow> Inl e
      | Inr (r', to_spend) \<Rightarrow> Inr (if 0 < to_spend then r'\<lparr>bankrupt := True\<rparr> else r'))"

text \<open>
  The loop header \<^verbatim>\<open>for (size_t i = 1; i < years / PERIOD; ++i)\<close> alone: the indices
  it visits from \<open>i\<close> on, in order.
\<close>

function timesteps :: "real \<Rightarrow> nat \<Rightarrow> nat list" where
  "timesteps years i = (if real i < years / PERIOD then i # timesteps years (i + 1) else [])"
  by pat_completeness auto
termination
proof (relation "measure (\<lambda>(years, i). nat \<lceil>years / PERIOD\<rceil> - i)")
  fix years :: real and i :: nat
  assume "real i < years / PERIOD"
  then have "int i < \<lceil>years / PERIOD\<rceil>"
    by (simp add: less_ceiling_iff)
  then show "((years, i + 1), (years, i)) \<in> measure (\<lambda>(years, i). nat \<lceil>years / PERIOD\<rceil> - i)"
    by simp
qed simp

declare timesteps.simps [simp del]

text \<open>The weekly loop: step \<open>i\<close> runs at \<^verbatim>\<open>year = i * PERIOD\<close>.\<close>

function run_loop :: "real list \<Rightarrow> real \<Rightarrow> nat \<Rightarrow> Run \<Rightarrow> error + Run" where
  "run_loop data years i r =
     (if real i < years / PERIOD then
        (case step data (real i * PERIOD) r of
           Inl e \<Rightarrow> Inl e
         | Inr r' \<Rightarrow> run_loop data years (i + 1) r')
      else Inr r)"
  by pat_completeness auto
termination
proof (relation "measure (\<lambda>(data, years, i, r). nat \<lceil>years / PERIOD\<rceil> - i)")
  fix data :: "real list" and years :: real and i :: nat and r r' :: Run
  assume "real i < years / PERIOD"
  then have "int i < \<lceil>years / PERIOD\<rceil>"
    by (simp add: less_ceiling_iff)
  then show "((data, years, i + 1, r'), (data, years, i, r)) \<in>
      measure (\<lambda>(data, years, i, r). nat \<lceil>years / PERIOD\<rceil> - i)"
    by simp
qed simp

declare run_loop.simps [simp del]

text \<open>One simulation of \<^verbatim>\<open>years\<close> years with the given offset.\<close>

definition simulate ::
  "real list \<Rightarrow> Model list \<Rightarrow> Model list \<Rightarrow> FundBase list \<Rightarrow> real \<Rightarrow> real \<Rightarrow> error + Run" where
  "simulate data base_income_models base_expense_models base_market_models percent years =
     run_loop data years 1
       (new_run data base_income_models base_expense_models base_market_models percent)"

subsection \<open>Construction\<close>

text \<open>
  An object as its constructor and the parser callbacks leave it, given the values of
  its flags: the cursor \<^verbatim>\<open>year_\<close> is 0, \<^verbatim>\<open>contributed_\<close> is empty, a
  \<^verbatim>\<open>Cost\<close> has \<^verbatim>\<open>total_ = remaining_\<close>, a \<^verbatim>\<open>Spending\<close> has
  \<^verbatim>\<open>linear_ = !is_exp\<close>, and a \<^verbatim>\<open>MarketFund\<close> has its multiplier from the data
  and offset 0.
\<close>

definition new_Job :: "string \<Rightarrow> real \<Rightarrow> real option \<Rightarrow> real \<Rightarrow> real \<Rightarrow> Model" where
  "new_Job n st dur salary rate =
     \<lparr>name = n, start = st, duration = dur, year = 0, kind = Job salary rate\<rparr>"

definition new_Spending :: "string \<Rightarrow> real \<Rightarrow> real option \<Rightarrow> real \<Rightarrow> real \<Rightarrow> bool \<Rightarrow> Model" where
  "new_Spending n st dur annual rate is_exp =
     \<lparr>name = n, start = st, duration = dur, year = 0, kind = Spending annual rate (\<not> is_exp)\<rparr>"

definition new_Cost :: "string \<Rightarrow> real \<Rightarrow> real option \<Rightarrow> real \<Rightarrow> real \<Rightarrow> real \<Rightarrow> Model" where
  "new_Cost n st dur total' down close =
     \<lparr>name = n, start = st, duration = dur, year = 0, kind = Cost total' total' down close\<rparr>"

definition new_FixedRateFund ::
  "string \<Rightarrow> real \<Rightarrow> real option \<Rightarrow> real \<Rightarrow> real \<Rightarrow> real \<Rightarrow> FundBase" where
  "new_FixedRateFund n st dur amt limit rate =
     \<lparr>name = n, start = st, duration = dur, year = 0, contributed = Map.empty,
      contribution_limit = limit, amount = amt, growth = FixedRateFund rate\<rparr>"

definition new_MarketFund ::
  "real list \<Rightarrow> string \<Rightarrow> real \<Rightarrow> real option \<Rightarrow> real \<Rightarrow> real \<Rightarrow> FundBase" where
  "new_MarketFund data n st dur amt limit =
     \<lparr>name = n, start = st, duration = dur, year = 0, contributed = Map.empty,
      contribution_limit = limit, amount = amt,
      growth = MarketFund (wrap_around_multiplier data) 0\<rparr>"

subsection \<open>Sequences of calls on one object\<close>

text \<open>
  A caller's sequence of calls on one fund. \<open>fund_calls\<close> makes them in order and
  returns the sum of the values that the \<^verbatim>\<open>buy\<close> calls returned; a throwing
  \<^verbatim>\<open>update_to\<close> ends the sequence.
\<close>

datatype fund_call = Buy real | Sell real | Update_to real

fun fund_calls :: "real list \<Rightarrow> FundBase \<Rightarrow> fund_call list \<Rightarrow> error + real \<times> FundBase" where
  "fund_calls data f [] = Inr (0, f)"
| "fund_calls data f (Buy amt # cs) =
     (let (absorbed, f') = buy f amt
      in case fund_calls data f' cs of
           Inl e \<Rightarrow> Inl e
         | Inr (rest, g) \<Rightarrow> Inr (absorbed + rest, g))"
| "fund_calls data f (Sell amt # cs) =
     (let (spend, f') = sell f amt in fund_calls data f' cs)"
| "fund_calls data f (Update_to yr # cs) =
     (case Fund_update_to data f yr of
        Inl e \<Rightarrow> Inl e
      | Inr (grown, f') \<Rightarrow> fund_calls data f' cs)"

text \<open>A call that leaves the cursor of a fund in calendar year \<open>k\<close>.\<close>

fun in_year :: "nat \<Rightarrow> fund_call \<Rightarrow> bool" where
  "in_year k (Update_to yr) = (0 \<le> yr \<and> nat \<lfloor>yr\<rfloor> = k)"
| "in_year k (Buy amt) = True"
| "in_year k (Sell amt) = True"

text \<open>
  A caller's sequence of \<^verbatim>\<open>update_to\<close> calls on one non-fund model, with the sum of
  the returned values.
\<close>

fun model_calls :: "Model \<Rightarrow> real list \<Rightarrow> real \<times> Model" where
  "model_calls m [] = (0, m)"
| "model_calls m (yr # yrs) =
     (let (v, m') = update_to m yr;
          (rest, m'') = model_calls m' yrs
      in (v + rest, m''))"


text \<open>The weekly step made at each index of a list, in order, at \<^verbatim>\<open>year = i * PERIOD\<close>.\<close>

fun run_steps :: "real list \<Rightarrow> nat list \<Rightarrow> Run \<Rightarrow> error + Run" where
  "run_steps data [] r = Inr r"
| "run_steps data (i # is) r =
     (case step data (real i * PERIOD) r of
        Inl e \<Rightarrow> Inl e
      | Inr r' \<Rightarrow> run_steps data is r')"

text \<open>
  The run that \<^verbatim>\<open>main\<close> starts from its own model set (lines 430 to 442): the job, the
  spending model, the three costs (here with total 0) and the fund list
  \<open>[market, retirement]\<close>, given the market file, the salary, the annual spending, the
  starting amount of both funds and the offset.
\<close>

definition main_run :: "real list \<Rightarrow> real \<Rightarrow> real \<Rightarrow> real \<Rightarrow> real \<Rightarrow> Run" where
  "main_run data salary annual amt percent =
     new_run data
       [new_Job ''job'' 0 None salary 0]
       [new_Spending ''spending'' 0 None annual 0 False, new_Cost ''child'' 0 None 0 0 0,
        new_Cost ''child2'' 0 None 0 0 0, new_Cost ''car'' 0 None 0 0 0]
       [new_MarketFund data ''market'' 0 None amt 0,
        new_MarketFund data ''retirement'' 0 None amt 0] percent"

text \<open>
  A run with an empty fund, spending of 52 a year and a job of 5200 a year that starts
  at year 0.03, after the first weekly step.
\<close>

definition late_job_run :: Run where
  "late_job_run =
     new_run [] [new_Job ''job'' (3 / 100) None 5200 0]
       [new_Spending ''spending'' 0 None 52 0 False]
       [new_FixedRateFund ''market'' 0 None 0 0 0] (1 / 2)"

section \<open>Properties\<close>

subsection \<open>Funds: \<^verbatim>\<open>sell\<close> and \<^verbatim>\<open>buy\<close>\<close>

text \<open>
  C7: \<open>sell\<close> returns 0 and changes nothing when the fund is not yet active
  (\<open>year < start\<close>) or the amount is negative; otherwise it returns the minimum of the
  requested amount and the balance, lowers the balance by exactly what it returned, and
  leaves a balance that is not negative.
\<close>

theorem sell_spec:
  "(year f < start f \<or> amt < 0 \<longrightarrow> sell f amt = (0, f)) \<and>
   (\<not> (year f < start f \<or> amt < 0) \<longrightarrow>
      fst (sell f amt) = min amt (amount f) \<and>
      snd (sell f amt) = f\<lparr>amount := amount f - fst (sell f amt)\<rparr> \<and>
      0 \<le> amount (snd (sell f amt)))"
  by (auto simp: sell_def min_def)

text \<open>
  The theorem at three calls: a fund that starts in year 5 refuses to sell in year 0, an
  active fund with 100 gives 30 of 30, and gives only its 100 when asked for 130.
\<close>

theorem sell_spec_witness:
  "sell (new_FixedRateFund ''f'' 5 None 100 0 0) 30 = (0, new_FixedRateFund ''f'' 5 None 100 0 0) \<and>
   fst (sell (new_FixedRateFund ''f'' 0 None 100 0 0) 30) = 30 \<and>
   amount (snd (sell (new_FixedRateFund ''f'' 0 None 100 0 0) 30)) = 70 \<and>
   fst (sell (new_FixedRateFund ''f'' 0 None 100 0 0) 130) = 100 \<and>
   amount (snd (sell (new_FixedRateFund ''f'' 0 None 100 0 0) 130)) = 0"
  using sell_spec [of "new_FixedRateFund ''f'' 5 None 100 0 0" 30]
        sell_spec [of "new_FixedRateFund ''f'' 0 None 100 0 0" 30]
        sell_spec [of "new_FixedRateFund ''f'' 0 None 100 0 0" 130]
  by (simp add: new_FixedRateFund_def)

lemma buy_frame:
  "contribution_limit (snd (buy f amt)) = contribution_limit f"
  "year (snd (buy f amt)) = year f"
  "amount (snd (buy f amt)) = amount f + fst (buy f amt)"
  by (simp_all add: buy_def Let_def)

lemma sell_frame:
  "contribution_limit (snd (sell f amt)) = contribution_limit f"
  "year (snd (sell f amt)) = year f"
  "contributed (snd (sell f amt)) = contributed f"
  by (simp_all add: sell_def)

lemma Fund_update_to_frame:
  assumes "Fund_update_to data f yr = Inr (v, g)"
  shows "contribution_limit g = contribution_limit f"
    and "year g = yr"
    and "contributed g = contributed f"
  using assms by (auto simp: Fund_update_to_def set_year_def split: sum.splits)

text \<open>
  One \<open>buy\<close> on a fund with a limit whose running total for the year is within the
  limit: the absorbed amount is not negative, is added to the running total, and keeps
  the total within the limit.
\<close>

lemma buy_contributed:
  assumes "0 < contribution_limit f"
      and "entry (contributed f) (nat \<lfloor>year f\<rfloor>) \<le> contribution_limit f"
  shows "0 \<le> fst (buy f amt)"
    and "entry (contributed (snd (buy f amt))) (nat \<lfloor>year f\<rfloor>) =
         entry (contributed f) (nat \<lfloor>year f\<rfloor>) + fst (buy f amt)"
    and "entry (contributed f) (nat \<lfloor>year f\<rfloor>) + fst (buy f amt) \<le> contribution_limit f"
  using assms by (auto simp: buy_def Let_def entry_def min_def)

lemma fund_calls_bound:
  "0 < contribution_limit f \<Longrightarrow> nat \<lfloor>year f\<rfloor> = k \<Longrightarrow>
   entry (contributed f) k \<le> contribution_limit f \<Longrightarrow>
   \<forall>c\<in>set cs. in_year k c \<Longrightarrow> fund_calls data f cs = Inr (absorbed, g) \<Longrightarrow>
   0 \<le> absorbed \<and> entry (contributed f) k + absorbed \<le> contribution_limit f"
proof (induction cs arbitrary: f absorbed g)
  case Nil
  then show ?case by simp
next
  case (Cons c cs)
  show ?case
  proof (cases c)
    case (Buy amt)
    obtain r f' where b: "buy f amt = (r, f')"
      by (cases "buy f amt")
    from Cons.prems(5) Buy b obtain s
      where rest: "fund_calls data f' cs = Inr (s, g)" and ab: "absorbed = r + s"
      by (auto split: sum.splits)
    have f': "f' = snd (buy f amt)" and r: "r = fst (buy f amt)"
      using b by simp_all
    have inv: "0 \<le> r" "entry (contributed f') k = entry (contributed f) k + r"
      "entry (contributed f) k + r \<le> contribution_limit f"
      using buy_contributed [of f amt] Cons.prems(1,2,3) f' r by simp_all
    have "0 \<le> s \<and> entry (contributed f') k + s \<le> contribution_limit f'"
      using Cons.IH [OF _ _ _ _ rest] Cons.prems inv f' by (simp add: buy_frame)
    then show ?thesis
      using inv ab f' by (simp add: buy_frame)
  next
    case (Sell amt)
    obtain r f' where b: "sell f amt = (r, f')"
      by (cases "sell f amt")
    from Cons.prems(5) Sell b have rest: "fund_calls data f' cs = Inr (absorbed, g)"
      by simp
    have f': "f' = snd (sell f amt)"
      using b by simp
    show ?thesis
      using Cons.IH [OF _ _ _ _ rest] Cons.prems f' by (simp add: sell_frame)
  next
    case (Update_to yr)
    from Cons.prems(5) Update_to obtain v f'
      where u: "Fund_update_to data f yr = Inr (v, f')"
        and rest: "fund_calls data f' cs = Inr (absorbed, g)"
      by (auto split: sum.splits)
    have "in_year k c"
      using Cons.prems(4) by simp
    then have "nat \<lfloor>yr\<rfloor> = k"
      using Update_to by simp
    then show ?thesis
      using Cons.IH [OF _ _ _ _ rest] Cons.prems Fund_update_to_frame [OF u] by simp
  qed
qed

text \<open>
  C5: a fund with a positive contribution limit that has no contribution yet in calendar
  year \<open>k\<close> receives any sequence of calls (\<open>buy\<close> with any amounts, and \<open>sell\<close>
  and \<open>update_to\<close> between them) that keeps its cursor in year \<open>k\<close>. If no call
  throws, the sum of the values returned by the \<open>buy\<close> calls is not negative and is at
  most the limit; and every \<open>buy\<close> adds what it returns to the balance.
\<close>

theorem buy_within_limit:
  assumes "0 < contribution_limit f"
      and "0 \<le> year f" and "nat \<lfloor>year f\<rfloor> = k"
      and "contributed f k = None"
      and "\<forall>c\<in>set cs. in_year k c"
      and "fund_calls data f cs = Inr (absorbed, g)"
  shows "0 \<le> absorbed \<and> absorbed \<le> contribution_limit f \<and>
         (\<forall>h amt. amount (snd (buy h amt)) = amount h + fst (buy h amt))"
proof -
  have "entry (contributed f) k \<le> contribution_limit f"
    using assms(1,4) by (simp add: entry_def)
  from fund_calls_bound [OF assms(1) assms(3) this assms(5) assms(6)]
  show ?thesis
    using assms(4) by (simp add: entry_def buy_frame)
qed

text \<open>
  The theorem at a fund with limit 6000 in year 0: asked for 4000, 4000 and 1, with an
  \<open>update_to\<close> and a \<open>sell\<close> in between, it absorbs 4000, 2000 and 0.
\<close>

theorem buy_within_limit_witness:
  "(\<exists>g. fund_calls [] (new_FixedRateFund ''f'' 0 None 0 6000 0)
          [Buy 4000, Update_to (1 / 52), Buy 4000, Sell 100, Buy 1] = Inr (6000, g)) \<and>
   (0::real) \<le> 6000 \<and> 6000 \<le> contribution_limit (new_FixedRateFund ''f'' 0 None 0 6000 0)"
proof -
  let ?f = "new_FixedRateFund ''f'' 0 None 0 6000 0"
  let ?cs = "[Buy 4000, Update_to (1 / 52), Buy 4000, Sell 100, Buy 1]"
  have "\<exists>g. fund_calls [] ?f ?cs = Inr (6000, g)"
    by (simp add: new_FixedRateFund_def buy_def sell_def Fund_update_to_def set_year_def
        entry_def)
  then obtain g where run: "fund_calls [] ?f ?cs = Inr (6000, g)" ..
  have h1: "0 < contribution_limit ?f" and h2: "0 \<le> year ?f"
    and h3: "nat \<lfloor>year ?f\<rfloor> = 0" and h4: "contributed ?f 0 = None"
    by (simp_all add: new_FixedRateFund_def)
  have h5: "\<forall>c\<in>set ?cs. in_year 0 c"
    by simp
  from buy_within_limit [OF h1 h2 h3 h4 h5 run] run show ?thesis
    by blast
qed

text \<open>
  C10: \<open>buy\<close> has no activation test. For an amount that is not negative, whatever the
  start and the duration of the fund are, it returns the amount capped by what is left
  of the year's limit (the amount itself when there is no limit) and adds that to the
  balance, which does not fall when the year's running total is within the limit;
  \<open>sell\<close> on the same fund returns 0 when the cursor is before the start.
\<close>

theorem buy_ignores_window:
  assumes "0 \<le> amt" and "0 \<le> year f"
  shows "fst (buy (f\<lparr>start := s, duration := d\<rparr>) amt) =
           (if 0 < contribution_limit f
            then min amt (contribution_limit f - entry (contributed f) (nat \<lfloor>year f\<rfloor>))
            else amt) \<and>
         amount (snd (buy (f\<lparr>start := s, duration := d\<rparr>) amt)) =
           amount f + fst (buy (f\<lparr>start := s, duration := d\<rparr>) amt) \<and>
         (entry (contributed f) (nat \<lfloor>year f\<rfloor>) \<le> contribution_limit f \<longrightarrow>
            amount f \<le> amount (snd (buy (f\<lparr>start := s, duration := d\<rparr>) amt))) \<and>
         (year f < s \<longrightarrow> fst (sell (f\<lparr>start := s, duration := d\<rparr>) amt) = 0)"
  using assms by (auto simp: buy_def sell_def Let_def min_def)

text \<open>
  The theorem at a fund whose window is the years 5 to 6 and whose cursor is 0: \<open>buy\<close>
  absorbs 10 and the balance rises from 100 to 110, \<open>sell\<close> returns 0.
\<close>

theorem buy_ignores_window_witness:
  "fst (buy (new_FixedRateFund ''f'' 5 (Some 1) 100 0 0) 10) = 10 \<and>
   amount (snd (buy (new_FixedRateFund ''f'' 5 (Some 1) 100 0 0) 10)) = 110 \<and>
   fst (sell (new_FixedRateFund ''f'' 5 (Some 1) 100 0 0) 10) = 0"
proof -
  let ?f = "new_FixedRateFund ''f'' 0 None 100 0 0"
  have eq: "?f\<lparr>start := 5, duration := Some 1\<rparr> = new_FixedRateFund ''f'' 5 (Some 1) 100 0 0"
    by (simp add: new_FixedRateFund_def)
  have h1: "(0::real) \<le> 10" and h2: "0 \<le> year ?f"
    by (simp_all add: new_FixedRateFund_def)
  from buy_ignores_window [OF h1 h2, where s = 5 and d = "Some 1"] show ?thesis
    unfolding eq by (simp add: new_FixedRateFund_def entry_def)
qed

subsection \<open>\<^verbatim>\<open>MarketFund::lookup\<close>\<close>

text \<open>
  The fields that \<open>lookup\<close> reads, in a fund as constructed and given its offset.
\<close>

lemma MarketFund_fields:
  "growth (set_offset_percent data (new_MarketFund data n st dur amt limit) percent) =
     MarketFund (wrap_around_multiplier data) (percent * real (length data))"
  by (simp add: set_offset_percent_def new_MarketFund_def)

text \<open>
  C4: with the day index \<open>before = \<lfloor>year * 365.25 + offset\<rfloor>\<close> (not negative, so that
  its conversion to \<^verbatim>\<open>size_t\<close> is defined) and the multiplier of the constructor,
  \<open>lookup\<close> returns the sample at \<open>before\<close> when \<open>before\<close> is below the sample
  count, returns \<open>sample[size - 1] / sample[0] * sample[before mod size]\<close> when
  \<open>before\<close> is at least the sample count and below twice it, and throws exactly when
  \<open>before\<close> is at least twice the sample count.
\<close>

theorem lookup_spec:
  assumes "0 \<le> yr * 365.25 + day_offset"
  shows "(nat \<lfloor>yr * 365.25 + day_offset\<rfloor> < length data \<longrightarrow>
            lookup data (wrap_around_multiplier data) day_offset yr =
              Inr (data ! nat \<lfloor>yr * 365.25 + day_offset\<rfloor>)) \<and>
         (length data \<le> nat \<lfloor>yr * 365.25 + day_offset\<rfloor> \<and>
          nat \<lfloor>yr * 365.25 + day_offset\<rfloor> < 2 * length data \<longrightarrow>
            lookup data (wrap_around_multiplier data) day_offset yr =
              Inr (data ! (length data - 1) / data ! 0 *
                   data ! (nat \<lfloor>yr * 365.25 + day_offset\<rfloor> mod length data))) \<and>
         ((\<exists>e. lookup data (wrap_around_multiplier data) day_offset yr = Inl e) \<longleftrightarrow>
            2 * length data \<le> nat \<lfloor>yr * 365.25 + day_offset\<rfloor>)"
  by (auto simp: lookup_def Let_def wrap_around_multiplier_def)

text \<open>
  The theorem on the samples 1, 2, 4 at year 0 with offsets 1, 4 and 6: the second
  sample, 4 times the second sample, and the exception.
\<close>

theorem lookup_spec_witness:
  "lookup [1, 2, 4] (wrap_around_multiplier [1, 2, 4]) 1 0 = Inr 2 \<and>
   lookup [1, 2, 4] (wrap_around_multiplier [1, 2, 4]) 4 0 = Inr 8 \<and>
   (\<exists>e. lookup [1, 2, 4] (wrap_around_multiplier [1, 2, 4]) 6 0 = Inl e)"
proof -
  have h1: "(0::real) \<le> 0 * 365.25 + 1" and h4: "(0::real) \<le> 0 * 365.25 + 4"
    and h6: "(0::real) \<le> 0 * 365.25 + 6"
    by simp_all
  from lookup_spec [OF h1, of "[1, 2, 4]"] lookup_spec [OF h4, of "[1, 2, 4]"]
    lookup_spec [OF h6, of "[1, 2, 4]"]
  show ?thesis
    by simp
qed

subsection \<open>Income and expense models\<close>

lemma end_year_update [simp]:
  "end_year (m\<lparr>year := y\<rparr>) = end_year m"
  "end_year (m\<lparr>kind := k\<rparr>) = end_year m"
  by (simp_all add: end_year_def split: option.splits)







text \<open>
  One call on a \<^verbatim>\<open>Cost\<close>: what it returns is what leaves \<^verbatim>\<open>remaining_\<close> and
  \<^verbatim>\<open>close_\<close>; the window is not changed.
\<close>

lemma Cost_update_to_balance:
  assumes "kind m = Cost t r d c"
  shows "\<exists>t' r' d' c'. kind (snd (update_to m yr)) = Cost t' r' d' c' \<and>
           fst (update_to m yr) + r' + c' = r + c \<and>
           start (snd (update_to m yr)) = start m \<and>
           duration (snd (update_to m yr)) = duration m"
  using assms
  by (auto simp: update_to_def Cost_update_to_def set_year_def Let_def)

lemma model_calls_balance:
  "kind m = Cost t r d c \<Longrightarrow>
   \<exists>t' r' d' c'. kind (snd (model_calls m yrs)) = Cost t' r' d' c' \<and>
     fst (model_calls m yrs) + r' + c' = r + c \<and>
     start (snd (model_calls m yrs)) = start m \<and>
     duration (snd (model_calls m yrs)) = duration m"
proof (induction yrs arbitrary: m t r d c)
  case Nil
  then show ?case by simp
next
  case (Cons yr yrs)
  let ?m1 = "snd (update_to m yr)"
  from Cost_update_to_balance [OF Cons.prems, of yr] obtain t1 r1 d1 c1 where
    k1: "kind ?m1 = Cost t1 r1 d1 c1"
    and b1: "fst (update_to m yr) + r1 + c1 = r + c"
    and s1: "start ?m1 = start m"
    and u1: "duration ?m1 = duration m"
    by blast
  from Cons.IH [OF k1] obtain t2 r2 d2 c2 where
    k2: "kind (snd (model_calls ?m1 yrs)) = Cost t2 r2 d2 c2"
    and b2: "fst (model_calls ?m1 yrs) + r2 + c2 = r1 + c1"
    and s2: "start (snd (model_calls ?m1 yrs)) = start ?m1"
    and u2: "duration (snd (model_calls ?m1 yrs)) = duration ?m1"
    by blast
  show ?case
    using k2 b1 b2 s1 s2 u1 u2 by (simp add: split_beta Let_def)
qed

lemma model_calls_snoc:
  "model_calls m (yrs @ [yr]) =
     (fst (model_calls m yrs) + fst (update_to (snd (model_calls m yrs)) yr),
      snd (update_to (snd (model_calls m yrs)) yr))"
  by (induction yrs arbitrary: m) (simp_all add: split_beta Let_def)

lemma Cost_update_to_past_end:
  assumes "kind m = Cost t r d c" and "duration m = Some dur" and "0 < dur"
      and "start m + dur < yr"
  shows "update_to m yr = (r + c, m\<lparr>year := yr, kind := Cost t 0 d 0\<rparr>)"
  using assms
  by (auto simp: update_to_def Cost_update_to_def set_year_def gt_end_def end_year_def)

text \<open>
  C6: a \<^verbatim>\<open>Cost\<close> as constructed, with a window of positive length, is called at any
  years of which the last is past the end of the window. The returned values add up to
  \<open>down + (total - down) + close\<close>, and afterwards \<^verbatim>\<open>remaining_\<close> and \<^verbatim>\<open>close_\<close>
  are 0. (The years need not even be non-decreasing.)
\<close>

theorem Cost_total_disbursed:
  assumes "0 < dur" and "yrs \<noteq> []" and "st + dur < last yrs"
  shows "fst (model_calls (new_Cost n st (Some dur) total' down close) yrs) =
           down + (total' - down) + close \<and>
         (\<exists>t' d'. kind (snd (model_calls (new_Cost n st (Some dur) total' down close) yrs)) =
            Cost t' 0 d' 0)"
proof -
  let ?m = "new_Cost n st (Some dur) total' down close"
  let ?m1 = "snd (model_calls ?m (butlast yrs))"
  have k: "kind ?m = Cost total' total' down close"
    by (simp add: new_Cost_def)
  from model_calls_balance [OF k, of "butlast yrs"] obtain t1 r1 d1 c1 where
    k1: "kind ?m1 = Cost t1 r1 d1 c1"
    and b1: "fst (model_calls ?m (butlast yrs)) + r1 + c1 = total' + close"
    and s1: "start ?m1 = st" and u1: "duration ?m1 = Some dur"
    by (auto simp: new_Cost_def)
  have past: "start ?m1 + dur < last yrs"
    using assms(3) s1 by simp
  have split: "yrs = butlast yrs @ [last yrs]"
    using assms(2) by simp
  have "model_calls ?m yrs =
          (fst (model_calls ?m (butlast yrs)) + fst (update_to ?m1 (last yrs)),
           snd (update_to ?m1 (last yrs)))"
    using model_calls_snoc [of ?m "butlast yrs" "last yrs"] split by simp
  then show ?thesis
    using Cost_update_to_past_end [OF k1 u1 assms(1) past] b1 by simp
qed

text \<open>
  The theorem at a \<^verbatim>\<open>Cost\<close> of 100 with 20 down and 5 to close over the years 1 to 3,
  called at the years 0.5, 1, 2, 3 and 3.5: it pays 0, 20, 40, 40 and 5.
\<close>

theorem Cost_total_disbursed_witness:
  "fst (model_calls (new_Cost ''car'' 1 (Some 2) 100 20 5) [1 / 2, 1, 2, 3, 7 / 2]) =
     20 + (100 - 20) + 5 \<and>
   map (\<lambda>yrs. fst (model_calls (new_Cost ''car'' 1 (Some 2) 100 20 5) yrs))
     [[1 / 2], [1 / 2, 1], [1 / 2, 1, 2], [1 / 2, 1, 2, 3]] = [0, 20, 60, 100]"
proof -
  have h1: "(0::real) < 2" and h2: "[1 / 2, 1, 2, 3, 7 / 2] \<noteq> ([]::real list)"
    and h3: "(1::real) + 2 < last [1 / 2, 1, 2, 3, 7 / 2]"
    by simp_all
  have "map (\<lambda>yrs. fst (model_calls (new_Cost ''car'' 1 (Some 2) 100 20 5) yrs))
     [[1 / 2], [1 / 2, 1], [1 / 2, 1, 2], [1 / 2, 1, 2, 3]] = [0, 20, 60, 100]"
    by (simp add: new_Cost_def update_to_def Cost_update_to_def set_year_def gt_end_def
        end_year_def)
  with Cost_total_disbursed [OF h1 h2 h3] show ?thesis
    by blast
qed

subsection \<open>The driver\<close>

lemmas evaluate_step =
  new_run_def new_Job_def new_Spending_def new_FixedRateFund_def step_def cash_flow_def
  set_offset_percent_def update_to_def ModelBase_update_to_def set_year_def ge_end_def
  end_year_def Fund_update_to_def buy_def sell_def capture_retirement_def buy_loop.simps
  sell_loop.simps run_loop.simps PERIOD_def

text \<open>
  C1: the order in which one weekly step offers money to the funds and takes money from
  them, on the models that \<^verbatim>\<open>main\<close> builds, with 100 in each of the funds
  \<open>[market, retirement]\<close> and a market file of 32 samples of price 1. With a surplus of
  10 (salary 520 a year, no spending) the 10 goes to the last-listed fund, and with a
  deficit of 10 (spending 520 a year, no salary) the 10 comes from the first-listed fund.
\<close>

theorem routing_order_in_main:
  "map_sum id (map amount \<circ> market_models)
     (step (replicate 32 1) (1 / 52) (main_run (replicate 32 1) 520 0 100 (1 / 2))) =
     Inr [100, 110] \<and>
   map_sum id (map amount \<circ> market_models)
     (step (replicate 32 1) (1 / 52) (main_run (replicate 32 1) 0 520 100 (1 / 2))) =
     Inr [90, 100]"
  by (simp add: main_run_def evaluate_step new_MarketFund_def new_Cost_def Cost_update_to_def
      gt_end_def lookup_def wrap_around_multiplier_def)

lemma index_below_bound: "real i < x \<Longrightarrow> Suc i \<le> nat \<lceil>x\<rceil>"
proof -
  assume "real i < x"
  then have "int i < \<lceil>x\<rceil>" by (simp add: less_ceiling_iff)
  then show ?thesis by linarith
qed

lemma timesteps_upt: "timesteps years i = [i ..< nat \<lceil>years / PERIOD\<rceil>]"
proof (induction years i rule: timesteps.induct)
  case (1 years i)
  show ?case
  proof (cases "real i < years / PERIOD")
    case True
    then have "i < nat \<lceil>years / PERIOD\<rceil>"
      using index_below_bound [of i "years / PERIOD"] by simp
    with True "1.IH" show ?thesis
      by (subst timesteps.simps) (simp add: upt_conv_Cons)
  next
    case False
    then have "\<not> int i < \<lceil>years / PERIOD\<rceil>"
      by (simp add: less_ceiling_iff)
    then have "\<not> i < nat \<lceil>years / PERIOD\<rceil>"
      by linarith
    with False show ?thesis
      by (subst timesteps.simps) simp
  qed
qed

lemma run_loop_steps: "run_loop data years i r = run_steps data (timesteps years i) r"
proof (induction data years i r rule: run_loop.induct)
  case (1 data years i r)
  show ?case
  proof (cases "real i < years / PERIOD")
    case True
    show ?thesis
      apply (subst run_loop.simps)
      apply (subst timesteps.simps)
      using True "1.IH" [OF True]
      by (simp split: sum.splits)
  next
    case False
    then show ?thesis
      by (subst run_loop.simps, subst timesteps.simps) simp
  qed
qed

text \<open>
  C2 as stated fails when \<open>years / dt\<close> is a whole number: a run of 1 year, the default,
  has \<open>\<lfloor>years / dt\<rfloor> = 52\<close> and makes the steps 1 to 51 only.
\<close>

theorem timesteps_counterexample:
  "timesteps 1 1 = [1 ..< 52] \<and> nat \<lfloor>1 / PERIOD\<rfloor> = 52 \<and> 52 \<notin> set (timesteps 1 1)"
  by (simp add: timesteps_upt PERIOD_def)

text \<open>
  C2, amended: a run of \<open>years\<close> years makes exactly the weekly steps with the indices
  \<open>i \<ge> 1\<close> such that \<open>i < years / dt\<close>, with \<open>dt = 1 / 52\<close>, that is the indices from 1
  to \<open>\<lceil>years / dt\<rceil> - 1\<close>, in order, step \<open>i\<close> at the year \<open>i * dt\<close>. The last index is
  \<open>\<lfloor>years / dt\<rfloor>\<close> when \<open>years / dt\<close> is not a whole number.
\<close>

theorem weekly_timesteps:
  "timesteps years 1 = [1 ..< nat \<lceil>years / PERIOD\<rceil>] \<and>
   (i \<in> set (timesteps years 1) \<longleftrightarrow> 1 \<le> i \<and> real i < years * 52) \<and>
   run_loop data years 1 r = run_steps data (timesteps years 1) r \<and>
   simulate data base_income_models base_expense_models base_market_models percent years =
     run_steps data [1 ..< nat \<lceil>years / PERIOD\<rceil>]
       (new_run data base_income_models base_expense_models base_market_models percent) \<and>
   (0 \<le> years \<and> of_int \<lfloor>years / PERIOD\<rfloor> \<noteq> years / PERIOD \<longrightarrow>
      timesteps years 1 = [1 ..< Suc (nat \<lfloor>years / PERIOD\<rfloor>)])"
proof (intro conjI impI)
  show "timesteps years 1 = [1 ..< nat \<lceil>years / PERIOD\<rceil>]"
    by (rule timesteps_upt)
next
  have "i < nat \<lceil>years / PERIOD\<rceil> \<longleftrightarrow> int i < \<lceil>years / PERIOD\<rceil>"
    by linarith
  also have "\<dots> \<longleftrightarrow> real i < years / PERIOD"
    by (simp add: less_ceiling_iff)
  finally show "i \<in> set (timesteps years 1) \<longleftrightarrow> 1 \<le> i \<and> real i < years * 52"
    by (simp add: timesteps_upt PERIOD_def)
next
  show "run_loop data years 1 r = run_steps data (timesteps years 1) r"
    by (rule run_loop_steps)
next
  show "simulate data base_income_models base_expense_models base_market_models percent years =
     run_steps data [1 ..< nat \<lceil>years / PERIOD\<rceil>]
       (new_run data base_income_models base_expense_models base_market_models percent)"
    by (simp add: simulate_def run_loop_steps timesteps_upt)
next
  assume a: "0 \<le> years \<and> of_int \<lfloor>years / PERIOD\<rfloor> \<noteq> years / PERIOD"
  then have "0 \<le> years / PERIOD"
    by (simp add: PERIOD_def)
  then have "0 \<le> \<lfloor>years / PERIOD\<rfloor>"
    by simp
  moreover have "\<lceil>years / PERIOD\<rceil> = \<lfloor>years / PERIOD\<rfloor> + 1"
    using a by (simp add: ceiling_altdef)
  ultimately have "nat \<lceil>years / PERIOD\<rceil> = Suc (nat \<lfloor>years / PERIOD\<rfloor>)"
    by linarith
  then show "timesteps years 1 = [1 ..< Suc (nat \<lfloor>years / PERIOD\<rfloor>)]"
    by (simp add: timesteps_upt)
qed

text \<open>The last part at a run of 53/104 years: \<open>years / dt\<close> is 26.5 and the steps are 1 to 26.\<close>

theorem weekly_timesteps_witness:
  "timesteps (53 / 104) 1 = [1 ..< Suc 26] \<and> nat \<lfloor>(53 / 104) / PERIOD\<rfloor> = 26"
proof -
  have h: "(0::real) \<le> 53 / 104 \<and> of_int \<lfloor>(53 / 104) / PERIOD\<rfloor> \<noteq> (53 / 104) / PERIOD"
    by (simp add: PERIOD_def)
  have f: "nat \<lfloor>(53 / 104) / PERIOD\<rfloor> = 26"
    by (simp add: PERIOD_def)
  from weekly_timesteps [of "53 / 104", THEN conjunct2, THEN conjunct2, THEN conjunct2,
      THEN conjunct2] h
  have "timesteps (53 / 104) 1 = [1 ..< Suc (nat \<lfloor>(53 / 104) / PERIOD\<rfloor>)]"
    by blast
  with f show ?thesis
    by simp
qed

text \<open>The body of the weekly loop does not write \<^verbatim>\<open>bankrupt\<close> before the final test.\<close>

lemma cash_flow_bankrupt:
  "cash_flow data yr r = Inr (r', ts) \<Longrightarrow> bankrupt r' = bankrupt r"
  by (auto simp: cash_flow_def Let_def split: prod.splits sum.splits)

lemma step_bankrupt:
  "step data yr r = Inr r' \<Longrightarrow> bankrupt r \<Longrightarrow> bankrupt r'"
  by (auto simp: step_def dest: cash_flow_bankrupt split: sum.splits if_splits)

lemma run_loop_bankrupt:
  "run_loop data years i r = Inr r' \<Longrightarrow> bankrupt r \<Longrightarrow> bankrupt r'"
proof (induction data years i r rule: run_loop.induct)
  case (1 data years i r)
  show ?case
  proof (cases "real i < years / PERIOD")
    case True
    then have "run_loop data years i r =
        (case step data (real i * PERIOD) r of
           Inl e \<Rightarrow> Inl e
         | Inr r1 \<Rightarrow> run_loop data years (i + 1) r1)"
      by (subst run_loop.simps) simp
    with "1.prems"(1) obtain r1 where s: "step data (real i * PERIOD) r = Inr r1"
      and rest: "run_loop data years (i + 1) r1 = Inr r'"
      by (auto split: sum.splits)
    from step_bankrupt [OF s "1.prems"(2)] have "bankrupt r1" .
    with "1.IH" [OF True s rest] show ?thesis .
  next
    case False
    then have "run_loop data years i r = Inr r"
      by (subst run_loop.simps) simp
    with "1.prems" show ?thesis
      by simp
  qed
qed

text \<open>
  C9: \<^verbatim>\<open>bankrupt\<close> is false when a run starts; after a step that does not throw it is
  true exactly when it was true before or the \<^verbatim>\<open>to_spend\<close> left after selling from
  every fund is positive; and once true it is true after every later step and at the end
  of the run, whatever the later cash flows are.
\<close>

theorem bankrupt_monotone:
  "\<not> bankrupt (new_run data base_income_models base_expense_models base_market_models percent) \<and>
   (\<forall>r' to_spend. cash_flow data yr r = Inr (r', to_spend) \<longrightarrow>
      (\<exists>r''. step data yr r = Inr r'' \<and> (bankrupt r'' \<longleftrightarrow> 0 < to_spend \<or> bankrupt r))) \<and>
   (\<forall>r'. bankrupt r \<and> step data yr r = Inr r' \<longrightarrow> bankrupt r') \<and>
   (\<forall>r'. bankrupt r \<and> run_loop data years i r = Inr r' \<longrightarrow> bankrupt r')"
proof (intro conjI allI impI)
  show "\<not> bankrupt (new_run data base_income_models base_expense_models base_market_models percent)"
    by (simp add: new_run_def)
next
  fix r' to_spend
  assume cf: "cash_flow data yr r = Inr (r', to_spend)"
  then show "\<exists>r''. step data yr r = Inr r'' \<and> (bankrupt r'' \<longleftrightarrow> 0 < to_spend \<or> bankrupt r)"
    using cash_flow_bankrupt [OF cf] by (simp add: step_def)
next
  fix r'
  assume "bankrupt r \<and> step data yr r = Inr r'"
  then show "bankrupt r'"
    using step_bankrupt by blast
next
  fix r'
  assume "bankrupt r \<and> run_loop data years i r = Inr r'"
  then show "bankrupt r'"
    using run_loop_bankrupt by blast
qed

text \<open>
  The theorem at a run of three weeks with an empty fund, spending of 52 a year and a job
  of 5200 a year that starts after the first week: the first step leaves a deficit of 1
  and sets the flag; the second step has a surplus of 99, which the fund absorbs, and the
  flag stays.
\<close>

theorem bankrupt_monotone_witness:
  "bankrupt (projr (step [] (1 / 52) late_job_run)) \<and>
   bankrupt (projr (run_loop [] (3 / 52) 2 (projr (step [] (1 / 52) late_job_run)))) \<and>
   map amount (market_models
     (projr (run_loop [] (3 / 52) 2 (projr (step [] (1 / 52) late_job_run))))) = [99]"
proof -
  let ?r0 = late_job_run
  let ?r1 = "projr (step [] (1 / 52) ?r0)"
  let ?r2 = "projr (run_loop [] (3 / 52) 2 ?r1)"
  note thm1 = bankrupt_monotone [where data = "[]" and yr = "1 / 52" and r = ?r0]
  note thm2 = bankrupt_monotone [where data = "[]" and years = "3 / 52" and i = 2 and r = ?r1]
  have "map_sum id snd (cash_flow [] (1 / 52) ?r0) = Inr 1"
    by (simp add: late_job_run_def evaluate_step)
  then obtain c where cf: "cash_flow [] (1 / 52) ?r0 = Inr (c, 1)"
    by (cases "cash_flow [] (1 / 52) ?r0") auto
  from thm1 [THEN conjunct2, THEN conjunct1, rule_format, OF cf]
  obtain r1 where s1: "step [] (1 / 52) ?r0 = Inr r1" and "bankrupt r1"
    by auto
  then have b1: "bankrupt ?r1"
    by simp
  have "\<not> isl (run_loop [] (3 / 52) 2 ?r1)"
    by (simp add: late_job_run_def evaluate_step)
  then have s2: "run_loop [] (3 / 52) 2 ?r1 = Inr ?r2"
    by simp
  from thm2 [THEN conjunct2, THEN conjunct2, THEN conjunct2, rule_format, of ?r2] b1 s2
  have b2: "bankrupt ?r2"
    by blast
  have "map amount (market_models ?r2) = [99]"
    by (simp add: late_job_run_def evaluate_step)
  with b1 b2 show ?thesis
    by blast
qed

end
